theory Spec2Isabelle
  imports Main "HOL-Library.Sublist"
begin

section \<open>The packaging manifest of tadtool\<close>

text \<open>
  The repository slice is one file, \<^verbatim>\<open>setup.py\<close>: an import from setuptools and one
  top-level call \<^verbatim>\<open>setup(...)\<close> with twelve keyword arguments. Eleven of them are
  literals; the twelfth, \<^verbatim>\<open>packages\<close>, is the value of
  \<^verbatim>\<open>find_packages(exclude=["test"])\<close>.
\<close>

subsection \<open>The keyword arguments of the call\<close>

text \<open>One field for each keyword argument, in the order of the source.\<close>

record setup_kwargs =
  name :: string
  version :: string
  description :: string
  packages :: "string list"
  install_requires :: "string list"
  author :: string
  author_email :: string
  url :: string
  download_url :: string
  "keywords" :: "string list"
  classifiers :: "string list"
  scripts :: "string list"

subsection \<open>Evaluating the module\<close>

text \<open>
  What evaluating the module does, in program order: the import statement binds two names
  of setuptools; then the single expression statement evaluates its keyword arguments from
  left to right, which calls \<^verbatim>\<open>find_packages(exclude=["test"])\<close> for the fourth of them,
  and at last calls \<^verbatim>\<open>setup\<close>. Each of these is an entry of the trace; a call to
  \<^verbatim>\<open>find_packages\<close> is recorded with its \<^verbatim>\<open>exclude\<close> argument.
\<close>

datatype effect =
  Import_from string "string list"
| Call_find_packages "string list"
| Call_setup setup_kwargs

text \<open>
  \<^verbatim>\<open>find_packages\<close> is an imported name, so the module is a function of whatever that
  name is bound to: the parameter \<open>fp\<close> maps the \<^verbatim>\<open>exclude\<close> argument to the list of
  packages found, and is the only way the environment reaches the module. Everything else
  in the call is a literal of the source.
\<close>

definition setup_py :: "(string list \<Rightarrow> string list) \<Rightarrow> effect list" where
  "setup_py fp =
     [Import_from ''setuptools'' [''setup'', ''find_packages''],
      Call_find_packages [''test''],
      Call_setup \<lparr>
        name = ''tadtool'',
        version = ''0.61'',
        description = ''Assistant to find cutoffs in TAD calling algorithms.'',
        packages = fp [''test''],
        install_requires = [
          ''numpy'',
          ''matplotlib'',
          ''progressbar2''
        ],
        author = ''Vaquerizas lab'',
        author_email = ''kai.kruse@mpi-muenster.mpg.de'',
        url = ''https://github.com/vaquerizaslab/tadtool'',
        download_url = ''https://github.com/vaquerizaslab/tadtool/tarball/0.61'',
        keywords = [''bioinformatics'', ''hi-c'', ''genomics'', ''tad''],
        classifiers = [],
        scripts = [''bin/tadtool'']
      \<rparr>]"

text \<open>The keyword arguments of every call to \<^verbatim>\<open>setup\<close> in a trace, in order.\<close>

fun setup_calls :: "effect list \<Rightarrow> setup_kwargs list" where
  "setup_calls [] = []"
| "setup_calls (Import_from m ns # es) = setup_calls es"
| "setup_calls (Call_find_packages ex # es) = setup_calls es"
| "setup_calls (Call_setup k # es) = k # setup_calls es"

text \<open>What a trace holds besides calls to \<^verbatim>\<open>setup\<close>, in order.\<close>

fun other_effects :: "effect list \<Rightarrow> effect list" where
  "other_effects [] = []"
| "other_effects (Import_from m ns # es) = Import_from m ns # other_effects es"
| "other_effects (Call_find_packages ex # es) = Call_find_packages ex # other_effects es"
| "other_effects (Call_setup k # es) = other_effects es"

subsection \<open>Path names\<close>

text \<open>
  \<^verbatim>\<open>os.path.basename\<close> on POSIX paths (\<^verbatim>\<open>i = p.rfind('/') + 1; return p[i:]\<close>): the
  text after the last slash, the whole path when it has none. The build step of the
  installer names each installed script by the basename of its declared path.
\<close>

definition basename :: "string \<Rightarrow> string" where
  "basename p = rev (takeWhile (\<lambda>c. c \<noteq> CHR ''/'') (rev p))"

subsection \<open>Package discovery\<close>

text \<open>
  \<^verbatim>\<open>find_packages\<close> is not code of this repository: it is \<^verbatim>\<open>PackageFinder.find\<close> of
  setuptools (\<^verbatim>\<open>setuptools/discovery.py\<close>), which walks the directory it is run in. The
  definitions below follow that library code, with the directory tree as an explicit
  argument, so that what the manifest passes as \<^verbatim>\<open>packages\<close> can be stated for every tree.

  A directory is its name, whether it holds an \<^verbatim>\<open>__init__.py\<close>, and its subdirectories in
  the order \<^verbatim>\<open>os.walk\<close> lists them. The tree is finite (no cycle of symbolic links).
\<close>

datatype dir = Dir (dir_name: string) (has_init: bool) (subdirs: "dir list")

text \<open>
  \<^verbatim>\<open>fnmatch.fnmatchcase(name, pat)\<close> for patterns built from ordinary characters, \<^verbatim>\<open>*\<close> (any
  run of characters) and \<^verbatim>\<open>?\<close> (any one character). Bracket expressions are not modelled:
  no pattern that reaches the filter from this manifest contains a bracket.
\<close>

fun fnmatchcase :: "string \<Rightarrow> string \<Rightarrow> bool" where
  "fnmatchcase [] [] = True"
| "fnmatchcase (c # cs) [] = False"
| "fnmatchcase [] (p # ps) = (p = CHR ''*'' \<and> fnmatchcase [] ps)"
| "fnmatchcase (c # cs) (p # ps) =
     (if p = CHR ''*'' then fnmatchcase (c # cs) ps \<or> fnmatchcase cs (p # ps)
      else if p = CHR ''?'' then fnmatchcase cs ps
      else p = c \<and> fnmatchcase cs ps)"

text \<open>
  The class \<^verbatim>\<open>_Filter\<close>: \<^verbatim>\<open>__call__\<close> is true when the item matches one of the patterns,
  \<^verbatim>\<open>__contains__\<close> when the item is literally one of them.
\<close>

fun filter_call :: "string list \<Rightarrow> string \<Rightarrow> bool" where
  "filter_call [] item = False"
| "filter_call (pat # patterns) item = (fnmatchcase item pat \<or> filter_call patterns item)"

definition filter_contains :: "string list \<Rightarrow> string \<Rightarrow> bool" where
  "filter_contains patterns item = (item \<in> set patterns)"

text \<open>
  The dotted package name of a directory met below \<open>root\<close> (the path relative to the start
  of the walk, separators replaced by dots; \<open>root\<close> is empty at the start).
\<close>

definition package_name :: "string \<Rightarrow> dir \<Rightarrow> string" where
  "package_name root d = (if root = [] then dir_name d else root @ ''.'' @ dir_name d)"

text \<open>
  \<^verbatim>\<open>PackageFinder._find_iter\<close>. At each level of the walk: directories with a dot in their
  name or without \<^verbatim>\<open>__init__.py\<close> are skipped with all below them; a remaining directory is
  yielded when it passes \<open>include\<close> and not \<open>exclude\<close>; the walk goes on below it, excluded
  or not, unless \<open>exclude\<close> literally holds the pattern \<^verbatim>\<open>package*\<close> or \<^verbatim>\<open>package.*\<close>.
  \<^verbatim>\<open>os.walk\<close> is top-down, so a level is yielded before the levels below it.
\<close>

function find_iter :: "string list \<Rightarrow> string list \<Rightarrow> string \<Rightarrow> dir list \<Rightarrow> string list" where
  "find_iter exclude include root dirs =
     (let all_dirs = filter (\<lambda>d. CHR ''.'' \<notin> set (dir_name d) \<and> has_init d) dirs;
          found = filter (\<lambda>package. filter_call include package \<and> \<not> filter_call exclude package)
                    (map (package_name root) all_dirs);
          kept = filter (\<lambda>d. \<not> filter_contains exclude (package_name root d @ ''*'') \<and>
                              \<not> filter_contains exclude (package_name root d @ ''.*'')) all_dirs
      in found @ concat (map (\<lambda>d. find_iter exclude include (package_name root d) (subdirs d)) kept))"
  by pat_completeness auto
termination
proof -
  have below: "size_list size (subdirs d) < size_list size ds" if "d \<in> set ds"
    for d :: dir and ds :: "dir list"
    using that by (induction ds) (cases d; auto)+
  show ?thesis
    by (relation "measure (\<lambda>(exclude, include, root, dirs). size_list size dirs)")
       (auto simp: below)
qed

declare find_iter.simps [simp del]

definition ALWAYS_EXCLUDE :: "string list" where
  "ALWAYS_EXCLUDE = [''ez_setup'', ''*__pycache__'']"

definition DEFAULT_EXCLUDE :: "string list" where
  "DEFAULT_EXCLUDE = []"

text \<open>
  \<^verbatim>\<open>find_packages(where='.', exclude=(), include=('*',))\<close>, with \<open>cwd\<close> the subdirectories of
  the directory the manifest is run in.
\<close>

definition find_packages :: "dir list \<Rightarrow> string list \<Rightarrow> string list" where
  "find_packages cwd exclude =
     find_iter (ALWAYS_EXCLUDE @ (if exclude = [] then DEFAULT_EXCLUDE else exclude))
       [''*''] [] cwd"

section \<open>Properties\<close>

subsection \<open>Package discovery never yields an excluded name\<close>

lemma find_iter_not_excluded:
  "p \<in> set (find_iter excl incl root ds) \<Longrightarrow> \<not> filter_call excl p"
proof (induction excl incl root ds rule: find_iter.induct)
  case (1 excl incl root ds)
  define all_dirs where
    "all_dirs = filter (\<lambda>d. CHR ''.'' \<notin> set (dir_name d) \<and> has_init d) ds"
  define found where
    "found = filter (\<lambda>package. filter_call incl package \<and> \<not> filter_call excl package)
               (map (package_name root) all_dirs)"
  define kept where
    "kept = filter (\<lambda>d. \<not> filter_contains excl (package_name root d @ ''*'') \<and>
                         \<not> filter_contains excl (package_name root d @ ''.*'')) all_dirs"
  have unfolded: "find_iter excl incl root ds =
      found @ concat (map (\<lambda>d. find_iter excl incl (package_name root d) (subdirs d)) kept)"
    by (subst find_iter.simps) (simp only: Let_def all_dirs_def found_def kept_def)
  from "1.prems" consider
    (here) "p \<in> set found"
  | (below) d where "d \<in> set kept" "p \<in> set (find_iter excl incl (package_name root d) (subdirs d))"
    unfolding unfolded by auto
  then show ?case
  proof cases
    case here
    then show ?thesis by (simp add: found_def)
  next
    case below
    from below(1) have "d \<in> set (filter (\<lambda>d. \<not> filter_contains excl (package_name root d @ ''*'') \<and>
                         \<not> filter_contains excl (package_name root d @ ''.*''))
           (filter (\<lambda>d. CHR ''.'' \<notin> set (dir_name d) \<and> has_init d) ds))"
      by (simp only: kept_def all_dirs_def)
    from "1.IH" [OF refl refl refl this below(2)] show ?thesis .
  qed
qed

lemma filter_call_append:
  "filter_call (ps @ qs) item = (filter_call ps item \<or> filter_call qs item)"
  by (induction ps) auto

lemma test_excluded: "filter_call (ALWAYS_EXCLUDE @ [''test'']) ''test''"
  by (simp add: filter_call_append)

lemma find_packages_no_test: "''test'' \<notin> set (find_packages cwd [''test''])"
proof
  assume "''test'' \<in> set (find_packages cwd [''test''])"
  then have "''test'' \<in> set (find_iter (ALWAYS_EXCLUDE @ [''test'']) [''*''] [] cwd)"
    by (simp add: find_packages_def)
  then have "\<not> filter_call (ALWAYS_EXCLUDE @ [''test'']) ''test''"
    by (rule find_iter_not_excluded)
  with test_excluded show False by simp
qed

subsection \<open>Unfolding one level of the walk\<close>

lemma find_iter_Nil: "find_iter excl incl root [] = []"
  by (subst find_iter.simps) simp

lemma find_iter_Cons:
  "find_iter excl incl root (d # ds) =
     (let all_dirs = filter (\<lambda>d. CHR ''.'' \<notin> set (dir_name d) \<and> has_init d) (d # ds);
          found = filter (\<lambda>package. filter_call incl package \<and> \<not> filter_call excl package)
                    (map (package_name root) all_dirs);
          kept = filter (\<lambda>d. \<not> filter_contains excl (package_name root d @ ''*'') \<and>
                              \<not> filter_contains excl (package_name root d @ ''.*'')) all_dirs
      in found @ concat (map (\<lambda>d. find_iter excl incl (package_name root d) (subdirs d)) kept))"
  by (rule find_iter.simps)

subsection \<open>The arguments of the call\<close>

text \<open>
  C1. The call to setup() declares the package name as exactly 'tadtool' and the version as
  exactly the string '0.61', whatever find_packages returns.
\<close>

theorem setup_name_version:
  "\<exists>k. setup_calls (setup_py fp) = [k] \<and> name k = ''tadtool'' \<and> version k = ''0.61''"
  by (simp add: setup_py_def)

text \<open>
  C2. The call declares exactly three runtime dependencies, in this order: 'numpy',
  'matplotlib', 'progressbar2'; no other dependency is declared.
\<close>

theorem setup_install_requires:
  "\<exists>k. setup_calls (setup_py fp) = [k] \<and>
       install_requires k = [''numpy'', ''matplotlib'', ''progressbar2''] \<and>
       length (install_requires k) = 3"
  by (simp add: setup_py_def)

text \<open>
  The scripts argument of the call is exactly one path, 'bin/tadtool', whose basename is
  'tadtool'; no second script is declared. What an installer does with that path (the script
  file itself, the directory it is copied to, the search path of the shell) is not decided
  by the manifest and is not stated here.
\<close>

lemma setup_scripts:
  "\<exists>k. setup_calls (setup_py fp) = [k] \<and>
       scripts k = [''bin/tadtool''] \<and>
       length (scripts k) = 1 \<and>
       map basename (scripts k) = [''tadtool'']"
  by (simp add: setup_py_def basename_def)

text \<open>
  C4. The call supplies a non-empty value for each of the five distribution-metadata
  fields: author, contact email, source URL, download URL and keyword tags.
\<close>

theorem setup_metadata_nonempty:
  "\<exists>k. setup_calls (setup_py fp) = [k] \<and>
       author k \<noteq> [] \<and> author_email k \<noteq> [] \<and> url k \<noteq> [] \<and>
       download_url k \<noteq> [] \<and> keywords k \<noteq> [] \<and> [] \<notin> set (keywords k)"
  by (simp add: setup_py_def)

text \<open>
  C5. The keyword tags declared by the call are exactly the four strings 'bioinformatics',
  'hi-c', 'genomics' and 'tad'.
\<close>

theorem setup_keywords:
  "\<exists>k. setup_calls (setup_py fp) = [k] \<and>
       keywords k = [''bioinformatics'', ''hi-c'', ''genomics'', ''tad''] \<and>
       length (keywords k) = 4"
  by (simp add: setup_py_def)

text \<open>
  C8. The download URL is consistent with the declared version: it ends with 'tarball/'
  followed by exactly the version string, and its final path component is the version.
\<close>

theorem setup_download_url_version:
  "\<exists>k. setup_calls (setup_py fp) = [k] \<and>
       suffix (''tarball/'' @ version k) (download_url k) \<and>
       suffix (version k) (download_url k) \<and>
       basename (download_url k) = version k \<and>
       version k = ''0.61''"
  by (simp add: setup_py_def basename_def suffix_def)

text \<open>
  C10. The classifiers argument of the call is the empty list: the distribution declares no
  trove classifiers.
\<close>

theorem setup_classifiers_empty:
  "\<exists>k. setup_calls (setup_py fp) = [k] \<and> classifiers k = []"
  by (simp add: setup_py_def)

text \<open>
  C6, as stated, fails: evaluating the module does not perform one call to setup() and
  nothing else. Run where package discovery meets an empty directory, the trace holds, besides
  the call to setup(), the import and a call to find_packages.
\<close>

theorem setup_not_only_effect_counterexample:
  "other_effects (setup_py (find_packages [])) =
     [Import_from ''setuptools'' [''setup'', ''find_packages''], Call_find_packages [''test'']] \<and>
   other_effects (setup_py (find_packages [])) \<noteq> []"
  by (simp add: setup_py_def)

text \<open>
  C6, amended. Evaluating the module performs, in this order, the import from setuptools, one
  call to find_packages(exclude=["test"]) and exactly one call to setup(), and nothing else.
  The packages argument of that call is what find_packages returned. Every other argument
  (name, version, description, dependencies, author, email, URLs, keywords, classifiers,
  scripts) is a fixed literal: two evaluations under any two bindings \<open>fp1\<close> and \<open>fp2\<close> of
  find_packages, that is in any two environments, pass the same values, and the two calls
  agree as soon as their packages argument is set aside.
\<close>

theorem setup_effects_deterministic:
  "\<exists>k1 k2.
     setup_py fp1 = [Import_from ''setuptools'' [''setup'', ''find_packages''],
                     Call_find_packages [''test''], Call_setup k1] \<and>
     setup_py fp2 = [Import_from ''setuptools'' [''setup'', ''find_packages''],
                     Call_find_packages [''test''], Call_setup k2] \<and>
     setup_calls (setup_py fp1) = [k1] \<and>
     setup_calls (setup_py fp2) = [k2] \<and>
     other_effects (setup_py fp1) = other_effects (setup_py fp2) \<and>
     packages k1 = fp1 [''test''] \<and>
     packages k2 = fp2 [''test''] \<and>
     name k1 = name k2 \<and>
     version k1 = version k2 \<and>
     description k1 = description k2 \<and>
     install_requires k1 = install_requires k2 \<and>
     author k1 = author k2 \<and>
     author_email k1 = author_email k2 \<and>
     url k1 = url k2 \<and>
     download_url k1 = download_url k2 \<and>
     keywords k1 = keywords k2 \<and>
     classifiers k1 = classifiers k2 \<and>
     scripts k1 = scripts k2 \<and>
     k1\<lparr>packages := ps\<rparr> = k2\<lparr>packages := ps\<rparr>"
  by (simp add: setup_py_def)

text \<open>
  C9. find_packages is called with exclude=["test"]: the packages argument is what package
  discovery returns for that exclusion, and for every directory tree no package it returns
  is named 'test'.
\<close>

theorem setup_packages_exclude_test:
  "\<exists>k. setup_calls (setup_py (find_packages cwd)) = [k] \<and>
       packages k = find_packages cwd [''test''] \<and>
       ''test'' \<notin> set (packages k)"
  using find_packages_no_test [of cwd] by (simp add: setup_py_def)

text \<open>
  A tree with a package, a subpackage, a compiled-code directory, a test package with a
  subpackage of its own, and a directory that is no package: 'test' is left out, while
  'test.data', which the pattern 'test' does not match, stays.
\<close>

theorem setup_packages_exclude_test_witness:
  "\<exists>k. setup_calls (setup_py (find_packages
         [Dir ''tadtool'' True [Dir ''__pycache__'' True [], Dir ''sub'' True []],
          Dir ''test'' True [Dir ''data'' True []],
          Dir ''docs'' False [Dir ''x'' True []]])) = [k] \<and>
       packages k = [''tadtool'', ''tadtool.sub'', ''test.data''] \<and>
       ''test'' \<notin> set (packages k)"
proof -
  have run: "find_packages
         [Dir ''tadtool'' True [Dir ''__pycache__'' True [], Dir ''sub'' True []],
          Dir ''test'' True [Dir ''data'' True []],
          Dir ''docs'' False [Dir ''x'' True []]] [''test'']
       = [''tadtool'', ''tadtool.sub'', ''test.data'']"
    by (simp add: find_packages_def find_iter_Nil find_iter_Cons Let_def package_name_def
          filter_contains_def ALWAYS_EXCLUDE_def DEFAULT_EXCLUDE_def)
  from setup_packages_exclude_test
         [of "[Dir ''tadtool'' True [Dir ''__pycache__'' True [], Dir ''sub'' True []],
               Dir ''test'' True [Dir ''data'' True []],
               Dir ''docs'' False [Dir ''x'' True []]]"]
  show ?thesis
    by (simp only: run)
qed

end
